theory Spec2Isabelle
  imports Complex_Main "HOL-Library.Sublist"
begin

section \<open>Documents and Python values\<close>

text \<open>
  The data document is whatever \<^verbatim>\<open>json.load\<close> returns: \<^verbatim>\<open>None\<close>, a bool, an int,
  a float, a str, a list or a dict with string keys. Python floats are IEEE doubles; their
  type is left as the parameter \<open>'f\<close>, and every operation on them is taken from an
  environment record (see below). A dict is kept as the list of its items; \<^verbatim>\<open>dict.get\<close>
  is \<open>map_of\<close>. Strings are lists of characters.
\<close>

datatype 'f json =
    JNull
  | JBool bool
  | JInt int
  | JFloat 'f
  | JStr string
  | JList "'f json list"
  | JDict "(string \<times> 'f json) list"

text \<open>The exceptions that the renderer's code can meet.\<close>

datatype py_error =
    KeyError | IndexError | TypeError | AttributeError | ValueError | OverflowError | ReError
  | ZeroDivisionError

subsection \<open>Built-in operations on strings and sequences\<close>

text \<open>\<^verbatim>\<open>s.split(c)\<close> for a one-character separator: never an empty list.\<close>

fun split_on :: "char \<Rightarrow> string \<Rightarrow> string list" where
  "split_on c [] = [[]]"
| "split_on c (x # xs) =
     (if x = c then [] # split_on c xs
      else (case split_on c xs of [] \<Rightarrow> [[x]] | w # ws \<Rightarrow> (x # w) # ws))"

text \<open>\<^verbatim>\<open>s.index(c)\<close>, called only where \<^verbatim>\<open>c in s\<close> holds.\<close>

definition str_index :: "string \<Rightarrow> char \<Rightarrow> nat" where
  "str_index s c = length (takeWhile (\<lambda>x. x \<noteq> c) s)"

text \<open>The slice \<^verbatim>\<open>s[a:b]\<close> for \<open>0 \<le> a\<close>, \<open>0 \<le> b\<close>: empty when \<open>b \<le> a\<close>.\<close>

definition slice :: "string \<Rightarrow> nat \<Rightarrow> nat \<Rightarrow> string" where
  "slice s a b = take (b - a) (drop a s)"

text \<open>
  A character is a code point below 256. Among these, \<^verbatim>\<open>str.strip()\<close> removes the
  space, the controls 0x09 to 0x0D, the four separators 0x1C to 0x1F, the next-line
  control 0x85 and the no-break space 0xA0. The conversion \<^verbatim>\<open>int()\<close> skips the same
  characters around the number except the four separators, on which it raises.
\<close>

definition is_int_space :: "char \<Rightarrow> bool" where
  "is_int_space c \<longleftrightarrow> c \<in> set [CHR '' '', CHR 0x09, CHR 0x0A, CHR 0x0B, CHR 0x0C, CHR 0x0D,
                                  CHR 0x85, CHR 0xA0]"

definition is_space :: "char \<Rightarrow> bool" where
  "is_space c \<longleftrightarrow> is_int_space c \<or> c \<in> set [CHR 0x1C, CHR 0x1D, CHR 0x1E, CHR 0x1F]"

definition py_strip :: "string \<Rightarrow> string" where
  "py_strip s = rev (dropWhile is_space (rev (dropWhile is_space s)))"

definition int_strip :: "string \<Rightarrow> string" where
  "int_strip s = rev (dropWhile is_int_space (rev (dropWhile is_int_space s)))"

definition is_digit :: "char \<Rightarrow> bool" where
  "is_digit c \<longleftrightarrow> c \<in> set ''0123456789''"

definition digit_val :: "char \<Rightarrow> nat" where
  "digit_val c = length (takeWhile (\<lambda>x. x \<noteq> c) ''0123456789'')"

definition digit_char :: "nat \<Rightarrow> char" where
  "digit_char d = ''0123456789'' ! d"

text \<open>
  \<^verbatim>\<open>int(s)\<close> on a string, base ten: white space is skipped on both sides, one sign may
  lead, and the digits may be separated by single underscores; a string with more digits
  than the interpreter's limit of 4300 is refused. \<open>None\<close> is the \<^verbatim>\<open>ValueError\<close>
  of Python.
\<close>

fun digits_acc :: "nat \<Rightarrow> string \<Rightarrow> nat option" where
  "digits_acc acc [] = Some acc"
| "digits_acc acc (c # cs) =
     (if is_digit c then digits_acc (10 * acc + digit_val c) cs
      else if c = CHR ''_'' then
        (case cs of
           [] \<Rightarrow> None
         | c' # cs' \<Rightarrow> if is_digit c' then digits_acc (10 * acc + digit_val c') cs' else None)
      else None)"

definition py_nat :: "string \<Rightarrow> nat option" where
  "py_nat s = (case s of [] \<Rightarrow> None
               | c # cs \<Rightarrow> if is_digit c then digits_acc (digit_val c) cs else None)"

definition max_str_digits :: nat where
  "max_str_digits = 4300"

definition py_int :: "string \<Rightarrow> int option" where
  "py_int s =
     (case int_strip s of
        [] \<Rightarrow> None
      | c # cs \<Rightarrow>
          if max_str_digits < length (filter is_digit (c # cs)) then None
          else if c = CHR ''-'' then map_option (\<lambda>n. - int n) (py_nat cs)
          else if c = CHR ''+'' then map_option int (py_nat cs)
          else map_option int (py_nat (c # cs)))"

text \<open>
  \<^verbatim>\<open>xs[i]\<close> on a sequence: a negative index counts from the end, and an index out of
  range raises \<^verbatim>\<open>IndexError\<close>.
\<close>

definition seq_index :: "'a list \<Rightarrow> int \<Rightarrow> py_error + 'a" where
  "seq_index xs i =
     (if 0 \<le> i \<and> i < int (length xs) then Inr (xs ! nat i)
      else if i < 0 \<and> - int (length xs) \<le> i then Inr (xs ! nat (int (length xs) + i))
      else Inl IndexError)"

text \<open>
  \<^verbatim>\<open>value.get(key, default)\<close>: only a dict has the method; on every other value the
  attribute lookup raises \<^verbatim>\<open>AttributeError\<close>.
\<close>

definition py_get :: "'f json \<Rightarrow> string \<Rightarrow> 'f json \<Rightarrow> py_error + 'f json" where
  "py_get v key dflt =
     (case v of
        JDict d \<Rightarrow> Inr (case map_of d key of None \<Rightarrow> dflt | Some w \<Rightarrow> w)
      | _ \<Rightarrow> Inl AttributeError)"

text \<open>
  \<^verbatim>\<open>v[index]\<close> with an integer index: a list gives its element, a string the
  one-character string at that place, a dict raises \<^verbatim>\<open>KeyError\<close> (its keys are
  strings), and \<^verbatim>\<open>None\<close>, bools and numbers are not subscriptable.
\<close>

definition py_subscript :: "'f json \<Rightarrow> int \<Rightarrow> py_error + 'f json" where
  "py_subscript v i =
     (case v of
        JList xs \<Rightarrow> seq_index xs i
      | JStr s \<Rightarrow> (case seq_index s i of Inl e \<Rightarrow> Inl e | Inr c \<Rightarrow> Inr (JStr [c]))
      | JDict d \<Rightarrow> Inl KeyError
      | _ \<Rightarrow> Inl TypeError)"

section \<open>Path resolver\<close>

text \<open>
  One iteration of the loop of \<^verbatim>\<open>resolve_value_reference\<close>, up to the test for
  \<^verbatim>\<open>None\<close>: the new \<^verbatim>\<open>value\<close>, or the exception raised. The index is converted
  before the lookup, as in the source.
\<close>

definition resolve_step :: "'f json \<Rightarrow> string \<Rightarrow> py_error + 'f json" where
  "resolve_step v key =
     (if CHR ''['' \<in> set key \<and> CHR '']'' \<in> set key then
        (let base_key = take (str_index key CHR ''['') key in
         case py_int (slice key (str_index key CHR ''['' + 1) (str_index key CHR '']'')) of
           None \<Rightarrow> Inl ValueError
         | Some index \<Rightarrow>
             (case py_get v base_key (JList []) of
                Inl e \<Rightarrow> Inl e
              | Inr w \<Rightarrow> py_subscript w index))
      else py_get v key JNull)"

text \<open>The \<^verbatim>\<open>for\<close> loop inside the \<^verbatim>\<open>try\<close>: \<open>Inr\<close> is what the body returns.\<close>

fun resolve_loop :: "'f json \<Rightarrow> 'f json \<Rightarrow> string list \<Rightarrow> py_error + 'f json" where
  "resolve_loop v dflt [] = Inr v"
| "resolve_loop v dflt (key # keys) =
     (case resolve_step v key of
        Inl e \<Rightarrow> Inl e
      | Inr w \<Rightarrow> (case w of JNull \<Rightarrow> Inr dflt | _ \<Rightarrow> resolve_loop w dflt keys))"

text \<open>The exceptions named by the \<^verbatim>\<open>except\<close> clause of the resolver.\<close>

definition resolve_caught :: "py_error \<Rightarrow> bool" where
  "resolve_caught e \<longleftrightarrow> e \<in> set [KeyError, IndexError, TypeError, AttributeError]"

definition resolve_value_reference :: "'f json \<Rightarrow> string \<Rightarrow> 'f json \<Rightarrow> py_error + 'f json" where
  "resolve_value_reference data path dflt =
     (if path = [] then Inr dflt
      else (case resolve_loop data dflt (split_on CHR ''.'' path) of
              Inl e \<Rightarrow> if resolve_caught e then Inr dflt else Inl e
            | Inr v \<Rightarrow> Inr v))"

text \<open>
  The value held by the loop variable after the loop has gone through the given keys
  without leaving: every step returned, and none returned \<^verbatim>\<open>None\<close>.
\<close>

fun loop_value :: "'f json \<Rightarrow> string list \<Rightarrow> 'f json option" where
  "loop_value v [] = Some v"
| "loop_value v (key # keys) =
     (case resolve_step v key of
        Inl e \<Rightarrow> None
      | Inr w \<Rightarrow> (case w of JNull \<Rightarrow> None | _ \<Rightarrow> loop_value w keys))"

section \<open>The library operations the renderer calls\<close>

text \<open>
  A number of a rule's parameters, as JSON gives it: an int, or a float.
\<close>

datatype 'f number = NInt int | NFloat 'f

text \<open>
  The operations of Python and its library on floats, on regular expressions and on the
  textual form of values, which the code calls and this development does not define.
  Every theorem below holds for every such environment, that of CPython among them.
  \<^item> \<open>float_of_int\<close> and \<open>float_of_str\<close>: \<^verbatim>\<open>float(x)\<close> on an int (\<open>None\<close>:
    \<^verbatim>\<open>OverflowError\<close>) and on a string (\<open>None\<close>: \<^verbatim>\<open>ValueError\<close>);
  \<^item> \<open>float_lt\<close>, \<open>float_gt\<close>: \<^verbatim>\<open>x < b\<close> and \<^verbatim>\<open>x > b\<close> for a float and a number;
  \<^item> \<open>float_neg\<close>: \<^verbatim>\<open>x < 0\<close>; \<open>float_abs\<close>: \<^verbatim>\<open>abs(x)\<close>; \<open>float_trunc\<close>:
    \<^verbatim>\<open>int(x)\<close>, which raises on a NaN or an infinity;
  \<^item> \<open>fmt_fixed x n\<close>: the format \<^verbatim>\<open>f"{x:,.{n}f}"\<close>;
  \<^item> \<open>float_str\<close> and \<open>container_str\<close>: \<^verbatim>\<open>str(x)\<close> on a float, a list or a dict;
  \<^item> \<open>re_match p s\<close>: whether \<^verbatim>\<open>re.match(p, s)\<close> finds a match (\<open>None\<close>: the
    pattern does not compile, \<^verbatim>\<open>re.error\<close>).
\<close>

record 'f pyenv =
  float_of_int :: "int \<Rightarrow> 'f option"
  float_of_str :: "string \<Rightarrow> 'f option"
  float_lt :: "'f \<Rightarrow> 'f number \<Rightarrow> bool"
  float_gt :: "'f \<Rightarrow> 'f number \<Rightarrow> bool"
  float_neg :: "'f \<Rightarrow> bool"
  float_abs :: "'f \<Rightarrow> 'f"
  float_trunc :: "'f \<Rightarrow> py_error + int"
  fmt_fixed :: "'f \<Rightarrow> nat \<Rightarrow> string"
  float_str :: "'f \<Rightarrow> string"
  container_str :: "'f json \<Rightarrow> string"
  re_match :: "string \<Rightarrow> string \<Rightarrow> bool option"

text \<open>
  The operations of \<^verbatim>\<open>datetime\<close> on strings. For \<open>fromisoformat\<close>, \<open>None\<close> is the
  \<^verbatim>\<open>ValueError\<close> of a failed parse. \<open>strptime\<close> returns the date or the exception it
  raises: \<^verbatim>\<open>ValueError\<close> when the string does not match the format or the format has
  a bad directive, and \<^verbatim>\<open>re.error\<close> when the format repeats a directive.
\<close>

record 'd dateenv =
  fromisoformat :: "string \<Rightarrow> 'd option"
  strptime :: "string \<Rightarrow> string \<Rightarrow> py_error + 'd"
  strftime :: "'d \<Rightarrow> string \<Rightarrow> string"

text \<open>\<^verbatim>\<open>str(n)\<close> on a natural number and on an int.\<close>

fun show_nat :: "nat \<Rightarrow> string" where
  "show_nat n = (if n < 10 then [digit_char n] else show_nat (n div 10) @ [digit_char (n mod 10)])"

declare show_nat.simps [simp del]

definition show_int :: "int \<Rightarrow> string" where
  "show_int n = (if n < 0 then CHR ''-'' # show_nat (nat (- n)) else show_nat (nat n))"

text \<open>\<^verbatim>\<open>str(value)\<close> on a value of the document.\<close>

definition py_str :: "'f pyenv \<Rightarrow> 'f json \<Rightarrow> string" where
  "py_str env v =
     (case v of
        JNull \<Rightarrow> ''None''
      | JBool b \<Rightarrow> (if b then ''True'' else ''False'')
      | JInt n \<Rightarrow> show_int n
      | JFloat x \<Rightarrow> float_str env x
      | JStr s \<Rightarrow> s
      | JList xs \<Rightarrow> container_str env v
      | JDict d \<Rightarrow> container_str env v)"

text \<open>
  \<^verbatim>\<open>float(value)\<close>: a float is itself, a bool is an int, a string is parsed, and
  \<^verbatim>\<open>None\<close>, lists and dicts raise \<^verbatim>\<open>TypeError\<close>.
\<close>

definition py_float :: "'f pyenv \<Rightarrow> 'f json \<Rightarrow> py_error + 'f" where
  "py_float env v =
     (case v of
        JFloat x \<Rightarrow> Inr x
      | JInt n \<Rightarrow> (case float_of_int env n of None \<Rightarrow> Inl OverflowError | Some x \<Rightarrow> Inr x)
      | JBool b \<Rightarrow>
          (case float_of_int env (if b then 1 else 0) of
             None \<Rightarrow> Inl OverflowError | Some x \<Rightarrow> Inr x)
      | JStr s \<Rightarrow> (case float_of_str env s of None \<Rightarrow> Inl ValueError | Some x \<Rightarrow> Inr x)
      | _ \<Rightarrow> Inl TypeError)"

text \<open>\<^verbatim>\<open>d.get(key, default)\<close> on a parameter that may be absent.\<close>

definition get_or :: "'a option \<Rightarrow> 'a \<Rightarrow> 'a" where
  "get_or x d = (case x of None \<Rightarrow> d | Some v \<Rightarrow> v)"

text \<open>Digits in groups of three, as the \<^verbatim>\<open>,\<close> of a format specification writes them.\<close>

fun group3 :: "string \<Rightarrow> string" where
  "group3 (a # b # c # d # rest) = a # b # c # CHR '','' # group3 (d # rest)"
| "group3 xs = xs"

definition with_commas :: "string \<Rightarrow> string" where
  "with_commas ds = rev (group3 (rev ds))"

text \<open>The format \<^verbatim>\<open>f"{n:,}"\<close> of an int.\<close>

definition format_int_commas :: "int \<Rightarrow> string" where
  "format_int_commas n =
     (if n < 0 then CHR ''-'' # with_commas (show_nat (nat (- n)))
      else with_commas (show_nat (nat n)))"

section \<open>Rules and their parameters\<close>

text \<open>
  The parameter mapping of a formatting or validation rule, with the keys the renderer
  reads; a key that is absent is \<open>None\<close>. The keys \<^verbatim>\<open>min\<close>, \<^verbatim>\<open>max\<close> and
  \<^verbatim>\<open>format\<close> are the fields \<open>min_val\<close>, \<open>max_val\<close> and \<open>out_format\<close>. The two
  bounds of a range rule are any values of the annotation document, since the code
  compares them inside its \<^verbatim>\<open>try\<close>; the other parameters have the type their rule
  gives them. The message of a validation rule is any value too: the code appends it as
  it is.
\<close>

record 'f params =
  pattern :: "string option"
  min_val :: "'f json option"
  max_val :: "'f json option"
  min_length :: "int option"
  max_length :: "int option"
  decimal_places :: "nat option"
  show_cents :: "bool option"
  currency_symbol :: "string option"
  thousands_separator :: "string option"
  negative_format :: "string option"
  out_format :: "string option"
  input_format :: "string option"

definition no_params :: "'f params" where
  "no_params = \<lparr>pattern = None, min_val = None, max_val = None, min_length = None,
     max_length = None, decimal_places = None, show_cents = None, currency_symbol = None,
     thousands_separator = None, negative_format = None, out_format = None,
     input_format = None\<rparr>"

record 'f validation_rule =
  rule_type :: "string option"
  parameters :: "'f params option"
  error_message :: "'f json option"

section \<open>Formatter\<close>

text \<open>
  \<^verbatim>\<open>_format_currency\<close>. The conversion to a float is the only statement inside the
  \<^verbatim>\<open>try\<close>; \<^verbatim>\<open>ValueError\<close> and \<^verbatim>\<open>TypeError\<close> give \<^verbatim>\<open>"0.00"\<close>. The variable
  \<^verbatim>\<open>separator\<close> is read from the parameters, as in the source, and the source does not
  use it afterwards.
\<close>

definition format_currency :: "'f pyenv \<Rightarrow> 'f json \<Rightarrow> 'f params \<Rightarrow> py_error + string" where
  "format_currency env v ps =
     (case py_float env v of
        Inl e \<Rightarrow> if e = ValueError \<or> e = TypeError then Inr ''0.00'' else Inl e
      | Inr num_value \<Rightarrow>
          (let places = get_or (decimal_places ps) 2;
               cents = get_or (show_cents ps) True;
               symbol = get_or (currency_symbol ps) ''$'';
               separator = get_or (thousands_separator ps) '','';
               negative = get_or (negative_format ps) ''parentheses'';
               is_negative = float_neg env num_value;
               num_abs = float_abs env num_value
           in case (if cents then Inr (fmt_fixed env num_abs places)
                    else (case float_trunc env num_abs of
                            Inl e \<Rightarrow> Inl e
                          | Inr n \<Rightarrow> Inr (format_int_commas n))) of
                Inl e \<Rightarrow> Inl e
              | Inr formatted \<Rightarrow>
                  (let with_symbol = (if symbol \<noteq> [] then symbol @ formatted else formatted)
                   in Inr (if is_negative then
                             (if negative = ''parentheses'' then ''('' @ with_symbol @ '')''
                              else ''-'' @ with_symbol)
                           else with_symbol))))"

text \<open>
  The loop of \<^verbatim>\<open>_format_mask\<close>, with its two variables \<^verbatim>\<open>result\<close> and
  \<^verbatim>\<open>val_idx\<close>, over the characters of the pattern that are left.
\<close>

fun mask_loop :: "string \<Rightarrow> string \<Rightarrow> nat \<Rightarrow> string \<Rightarrow> string" where
  "mask_loop value_str result val_idx [] = result"
| "mask_loop value_str result val_idx (ch # rest) =
     (if ch = CHR ''#'' \<or> ch = CHR ''X'' then
        (if val_idx < length value_str
         then mask_loop value_str (result @ [value_str ! val_idx]) (val_idx + 1) rest
         else mask_loop value_str result val_idx rest)
      else mask_loop value_str (result @ [ch]) val_idx rest)"

text \<open>\<^verbatim>\<open>s.replace(c, '')\<close> for a one-character \<open>c\<close>.\<close>

definition remove_char :: "char \<Rightarrow> string \<Rightarrow> string" where
  "remove_char c s = filter (\<lambda>x. x \<noteq> c) s"

definition format_mask :: "'f pyenv \<Rightarrow> 'f json \<Rightarrow> 'f params \<Rightarrow> string" where
  "format_mask env v ps =
     (let pat = get_or (pattern ps) [];
          value_str = remove_char CHR '' '' (remove_char CHR ''-'' (py_str env v))
      in mask_loop value_str [] 0 pat)"

text \<open>
  \<^verbatim>\<open>_format_date\<close>. Both parsers of \<^verbatim>\<open>datetime\<close> raise \<^verbatim>\<open>TypeError\<close> on an argument
  that is not a string, before they parse anything; on a string they return or raise as
  the environment says. The \<^verbatim>\<open>except\<close> clause names \<^verbatim>\<open>ValueError\<close> and
  \<^verbatim>\<open>AttributeError\<close>; any other exception leaves the function.
\<close>

definition date_output :: "'d dateenv \<Rightarrow> 'd \<Rightarrow> string \<Rightarrow> string" where
  "date_output denv date_obj output_format =
     (if output_format = ''MM/DD/YYYY'' then strftime denv date_obj ''%m/%d/%Y''
      else if output_format = ''DD/MM/YYYY'' then strftime denv date_obj ''%d/%m/%Y''
      else if output_format = ''YYYY-MM-DD'' then strftime denv date_obj ''%Y-%m-%d''
      else strftime denv date_obj output_format)"

definition date_parse :: "'d dateenv \<Rightarrow> 'f json \<Rightarrow> string \<Rightarrow> py_error + 'd" where
  "date_parse denv v fmt =
     (case v of
        JStr s \<Rightarrow>
          (if fmt = ''ISO8601'' then
             (case fromisoformat denv s of
                None \<Rightarrow> Inl ValueError
              | Some date_obj \<Rightarrow> Inr date_obj)
           else strptime denv s fmt)
      | _ \<Rightarrow> Inl TypeError)"

definition format_date ::
  "'f pyenv \<Rightarrow> 'd dateenv \<Rightarrow> 'f json \<Rightarrow> 'f params \<Rightarrow> py_error + string" where
  "format_date env denv v ps =
     (let output_format = get_or (out_format ps) ''MM/DD/YYYY'';
          fmt = get_or (input_format ps) ''ISO8601''
      in case date_parse denv v fmt of
           Inr date_obj \<Rightarrow> Inr (date_output denv date_obj output_format)
         | Inl e \<Rightarrow> if e = ValueError \<or> e = AttributeError then Inr (py_str env v) else Inl e)"

section \<open>Validator\<close>

definition rule_type_of :: "'f validation_rule \<Rightarrow> string" where
  "rule_type_of r = get_or (rule_type r) []"

definition params_of :: "'f validation_rule \<Rightarrow> 'f params" where
  "params_of r = get_or (parameters r) no_params"

definition error_msg_of :: "'f validation_rule \<Rightarrow> 'f json" where
  "error_msg_of r = get_or (error_message r) (JStr (rule_type_of r @ '' validation failed''))"

definition range_message :: "'f json" where
  "range_message = JStr ''Value must be numeric for range validation''"

text \<open>
  The number a bound is compared as: an int, a float, or a bool, which is an int. With any
  other bound the comparison of a float raises \<^verbatim>\<open>TypeError\<close>.
\<close>

definition bound_number :: "'f json \<Rightarrow> 'f number option" where
  "bound_number b =
     (case b of
        JInt n \<Rightarrow> Some (NInt n)
      | JFloat x \<Rightarrow> Some (NFloat x)
      | JBool t \<Rightarrow> Some (NInt (if t then 1 else 0))
      | _ \<Rightarrow> None)"

text \<open>
  The condition \<^verbatim>\<open>bound is not None and num_value < bound\<close> (or \<^verbatim>\<open>>\<close>) of a range
  rule, where \<^verbatim>\<open>params.get\<close> gives \<^verbatim>\<open>None\<close> for an absent bound as for a null one.
\<close>

definition bound_test ::
  "('f \<Rightarrow> 'f number \<Rightarrow> bool) \<Rightarrow> 'f \<Rightarrow> 'f json option \<Rightarrow> py_error + bool" where
  "bound_test cmp x bound =
     (case bound of
        None \<Rightarrow> Inr False
      | Some b \<Rightarrow>
          if b = JNull then Inr False
          else (case bound_number b of None \<Rightarrow> Inl TypeError | Some n \<Rightarrow> Inr (cmp x n)))"

text \<open>
  The \<^verbatim>\<open>try\<close> block of a range rule: the messages it has appended, and the exception
  that ended it, if any.
\<close>

definition range_try ::
  "'f pyenv \<Rightarrow> 'f json \<Rightarrow> 'f params \<Rightarrow> 'f json \<Rightarrow> 'f json list \<times> py_error option" where
  "range_try env v ps error_msg =
     (case py_float env v of
        Inl e \<Rightarrow> ([], Some e)
      | Inr num_value \<Rightarrow>
          (case bound_test (float_lt env) num_value (min_val ps) of
             Inl e \<Rightarrow> ([], Some e)
           | Inr is_below \<Rightarrow>
               (case bound_test (float_gt env) num_value (max_val ps) of
                  Inl e \<Rightarrow> ((if is_below then [error_msg] else []), Some e)
                | Inr is_above \<Rightarrow>
                    ((if is_below then [error_msg] else []) @
                     (if is_above then [error_msg] else []), None))))"

text \<open>
  The length test: \<^verbatim>\<open>min_length <= length <= max_length\<close>, where an absent
  \<^verbatim>\<open>max_length\<close> is infinity.
\<close>

definition length_ok :: "'f params \<Rightarrow> nat \<Rightarrow> bool" where
  "length_ok ps n \<longleftrightarrow>
     get_or (min_length ps) 0 \<le> int n \<and>
     (case max_length ps of None \<Rightarrow> True | Some m \<Rightarrow> int n \<le> m)"

text \<open>
  The body of the loop of \<^verbatim>\<open>validate_value\<close> for one rule: the messages it appends
  to \<^verbatim>\<open>errors\<close>, or the exception that leaves the function. The \<^verbatim>\<open>except\<close> clause
  of the range rule names \<^verbatim>\<open>ValueError\<close> and \<^verbatim>\<open>TypeError\<close>. A rule type that is
  none of the four appends nothing.
\<close>

definition validate_rule ::
  "'f pyenv \<Rightarrow> 'f json \<Rightarrow> 'f validation_rule \<Rightarrow> py_error + 'f json list" where
  "validate_rule env v r =
     (let rtype = rule_type_of r; ps = params_of r; error_msg = error_msg_of r
      in if rtype = ''required'' then
           Inr (if v = JNull \<or> py_strip (py_str env v) = [] then [error_msg] else [])
         else if rtype = ''regex'' then
           (case re_match env (get_or (pattern ps) []) (py_str env v) of
              None \<Rightarrow> Inl ReError
            | Some found \<Rightarrow> Inr (if \<not> found then [error_msg] else []))
         else if rtype = ''range'' then
           (case range_try env v ps error_msg of
              (appended, None) \<Rightarrow> Inr appended
            | (appended, Some e) \<Rightarrow>
                if e = ValueError \<or> e = TypeError then Inr (appended @ [range_message])
                else Inl e)
         else if rtype = ''length'' then
           Inr (if \<not> length_ok ps (length (py_str env v)) then [error_msg] else [])
         else Inr [])"

fun validate_loop ::
  "'f pyenv \<Rightarrow> 'f json \<Rightarrow> 'f json list \<Rightarrow> 'f validation_rule list \<Rightarrow>
   py_error + 'f json list" where
  "validate_loop env v errs [] = Inr errs"
| "validate_loop env v errs (r # rest) =
     (case validate_rule env v r of
        Inl e \<Rightarrow> Inl e
      | Inr new \<Rightarrow> validate_loop env v (errs @ new) rest)"

definition validate_value ::
  "'f pyenv \<Rightarrow> 'f json \<Rightarrow> 'f validation_rule list \<Rightarrow> py_error + 'f json list" where
  "validate_value env v validations = validate_loop env v [] validations"

section \<open>Rendering one field\<close>

text \<open>
  The part of a field annotation that \<^verbatim>\<open>_render_field\<close> reads before it formats and
  draws; \<open>None\<close> is an absent key. The renderer's state is its two accumulators and
  the calls made on the canvas, whose type \<open>'c\<close> is left open.
\<close>

record 'f value_ref =
  path :: "string option"
  default_value :: "'f json option"

record 'f field =
  field_id :: "string option"
  value_reference :: "'f value_ref option"
  required :: "bool option"
  validation :: "'f validation_rule list option"

record 'c renderer =
  errors :: "string list"
  warnings :: "string list"
  canvas :: "'c list"

definition field_path :: "'f field \<Rightarrow> string" where
  "field_path fld =
     (case value_reference fld of None \<Rightarrow> [] | Some vr \<Rightarrow> get_or (path vr) [])"

definition field_default :: "'f field \<Rightarrow> 'f json" where
  "field_default fld =
     (case value_reference fld of None \<Rightarrow> JNull | Some vr \<Rightarrow> get_or (default_value vr) JNull)"

text \<open>
  \<^verbatim>\<open>_render_field\<close>, lines 327 to 348 of the source, written out; the rest of the
  function (formatting, geometry and the calls on the canvas) is the parameter
  \<open>draw\<close>, given the field, the resolved value, the debug flag and the state. Each
  message goes into the errors through the format \<^verbatim>\<open>f"{field_id}: {err}"\<close>.
\<close>

definition render_field ::
  "'f pyenv \<Rightarrow> ('f field \<Rightarrow> 'f json \<Rightarrow> bool \<Rightarrow> 'c renderer \<Rightarrow> py_error + 'c renderer) \<Rightarrow>
   'f json \<Rightarrow> 'f field \<Rightarrow> bool \<Rightarrow> 'c renderer \<Rightarrow> py_error + 'c renderer" where
  "render_field env draw data fld show_debug st =
     (let fid = get_or (field_id fld) ''unknown'' in
      case resolve_value_reference data (field_path fld) (field_default fld) of
        Inl e \<Rightarrow> Inl e
      | Inr v \<Rightarrow>
          if v = JNull \<and> \<not> get_or (required fld) False then Inr st
          else
            (case validate_value env v (get_or (validation fld) []) of
               Inl e \<Rightarrow> Inl e
             | Inr validation_errors \<Rightarrow>
                 (let st1 = (if validation_errors \<noteq> []
                             then st\<lparr>errors := errors st @
                                     map (\<lambda>err. fid @ '': '' @ py_str env err)
                                       validation_errors\<rparr>
                             else st)
                  in if validation_errors \<noteq> [] \<and> get_or (required fld) False then Inr st1
                     else draw fld v show_debug st1)))"

section \<open>Placing the text in its box\<close>

text \<open>
  Lines 407 to 430 of \<^verbatim>\<open>_render_field\<close>: the width of the text, its anchor and the
  shrinking of the font. The numbers of the annotation and of the canvas are ints and
  floats; their type \<open>'n\<close> and the operations on them are parameters, as is
  \<^verbatim>\<open>stringWidth\<close>, the measure of the PDF library. A division returns \<open>None\<close> where
  Python raises \<^verbatim>\<open>ZeroDivisionError\<close>.
\<close>

record 'n arith =
  num_add :: "'n \<Rightarrow> 'n \<Rightarrow> 'n"
  num_sub :: "'n \<Rightarrow> 'n \<Rightarrow> 'n"
  num_mul :: "'n \<Rightarrow> 'n \<Rightarrow> 'n"
  num_div :: "'n \<Rightarrow> 'n \<Rightarrow> 'n option"
  num_gt :: "'n \<Rightarrow> 'n \<Rightarrow> bool"
  num_two :: "'n"
  num_margin :: "'n"
  string_width :: "string \<Rightarrow> string \<Rightarrow> 'n \<Rightarrow> 'n"

text \<open>
  What the lines read: the corner \<open>x\<close> and the width of the box after the conversion
  of the coordinates, the left and right padding, the font, and the two policies.
\<close>

record 'n text_box =
  box_x :: "'n"
  box_width :: "'n"
  padding_left :: "'n"
  padding_right :: "'n"
  font_family :: "string"
  font_size :: "'n"
  alignment :: "string"
  overflow_behavior :: "string"

text \<open>What they leave: the size of the font set last, the measured width and the anchor.\<close>

record 'n placed =
  used_size :: "'n"
  text_width :: "'n"
  text_x :: "'n"

text \<open>
  The anchor for the alignments \<^verbatim>\<open>right\<close> and \<^verbatim>\<open>center\<close>; for any other alignment
  the value given as \<open>current\<close> stays.
\<close>

definition anchor :: "'n arith \<Rightarrow> 'n text_box \<Rightarrow> 'n \<Rightarrow> 'n \<Rightarrow> py_error + 'n" where
  "anchor ar b width_of_text current =
     (if alignment b = ''right'' then
        Inr (num_sub ar (num_sub ar (num_add ar (box_x b) (box_width b)) width_of_text)
               (padding_right b))
      else if alignment b = ''center'' then
        (case num_div ar (num_sub ar (box_width b) width_of_text) (num_two ar) of
           None \<Rightarrow> Inl ZeroDivisionError
         | Some half \<Rightarrow> Inr (num_add ar (box_x b) half))
      else Inr current)"

definition available_width :: "'n arith \<Rightarrow> 'n text_box \<Rightarrow> 'n" where
  "available_width ar b = num_sub ar (num_sub ar (box_width b) (padding_left b)) (padding_right b)"

definition place_text :: "'n arith \<Rightarrow> 'n text_box \<Rightarrow> string \<Rightarrow> py_error + 'n placed" where
  "place_text ar b formatted_value =
     (let measured = string_width ar formatted_value (font_family b) (font_size b) in
      case anchor ar b measured (num_add ar (box_x b) (padding_left b)) of
        Inl e \<Rightarrow> Inl e
      | Inr first_x \<Rightarrow>
          if overflow_behavior b = ''shrink'' \<and> num_gt ar measured (available_width ar b) then
            (case num_div ar (available_width ar b) measured of
               None \<Rightarrow> Inl ZeroDivisionError
             | Some scale \<Rightarrow>
                 (let new_size = num_mul ar (num_mul ar (font_size b) scale) (num_margin ar);
                      remeasured = string_width ar formatted_value (font_family b) new_size
                  in case anchor ar b remeasured first_x of
                       Inl e \<Rightarrow> Inl e
                     | Inr new_x \<Rightarrow>
                         Inr \<lparr>used_size = new_size, text_width = remeasured, text_x = new_x\<rparr>))
          else Inr \<lparr>used_size = font_size b, text_width = measured, text_x = first_x\<rparr>)"

section \<open>Rules as the specification describes them\<close>










section \<open>Paths as the specification describes them\<close>

text \<open>
  A path of the specification is a sequence of segments, each a key with an optional
  integer subscript; it is written with dots between the segments and the subscript in
  brackets, in decimal. \<open>lookup_path\<close> is the value the path refers to in a document:
  the key is looked up in a mapping, and the subscript, when there is one, in the
  sequence found under the key.
\<close>

type_synonym segment = "string \<times> nat option"

fun render_segment :: "segment \<Rightarrow> string" where
  "render_segment (k, None) = k"
| "render_segment (k, Some i) = k @ ''['' @ show_nat i @ '']''"

fun join_with :: "char \<Rightarrow> string list \<Rightarrow> string" where
  "join_with c [] = []"
| "join_with c [w] = w"
| "join_with c (w # v # ws) = w @ c # join_with c (v # ws)"

definition render_path :: "segment list \<Rightarrow> string" where
  "render_path segs = join_with CHR ''.'' (map render_segment segs)"

definition valid_key :: "string \<Rightarrow> bool" where
  "valid_key k \<longleftrightarrow> CHR ''.'' \<notin> set k \<and> CHR ''['' \<notin> set k \<and> CHR '']'' \<notin> set k"

text \<open>
  A segment is valid when its key has no dot and no bracket and its subscript, written in
  decimal, is within the number of digits that \<^verbatim>\<open>int()\<close> converts.
\<close>

definition valid_segment :: "segment \<Rightarrow> bool" where
  "valid_segment seg \<longleftrightarrow>
     valid_key (fst seg) \<and>
     (case snd seg of None \<Rightarrow> True | Some i \<Rightarrow> length (show_nat i) \<le> max_str_digits)"

fun lookup_path :: "'f json \<Rightarrow> segment list \<Rightarrow> 'f json option" where
  "lookup_path v [] = Some v"
| "lookup_path v ((k, None) # rest) =
     (case v of
        JDict d \<Rightarrow> (case map_of d k of None \<Rightarrow> None | Some w \<Rightarrow> lookup_path w rest)
      | _ \<Rightarrow> None)"
| "lookup_path v ((k, Some i) # rest) =
     (case v of
        JDict d \<Rightarrow>
          (case map_of d k of
             Some (JList xs) \<Rightarrow> if i < length xs then lookup_path (xs ! i) rest else None
           | _ \<Rightarrow> None)
      | _ \<Rightarrow> None)"

text \<open>The number denoted by a string of digits, read from the left.\<close>

definition digits_value :: "nat \<Rightarrow> string \<Rightarrow> nat" where
  "digits_value acc ds = foldl (\<lambda>a c. 10 * a + digit_val c) acc ds"

section \<open>The mask as the specification describes it\<close>

text \<open>
  Walking the pattern from the left over the source characters that are not consumed yet:
  a placeholder takes the next one, or gives nothing when none is left, and any other
  character of the pattern is copied.
\<close>

fun mask_spec :: "string \<Rightarrow> string \<Rightarrow> string" where
  "mask_spec [] src = []"
| "mask_spec (ch # rest) src =
     (if ch = CHR ''#'' \<or> ch = CHR ''X'' then
        (case src of [] \<Rightarrow> mask_spec rest [] | s # ss \<Rightarrow> s # mask_spec rest ss)
      else ch # mask_spec rest src)"

section \<open>A sample environment\<close>

text \<open>
  To run the definitions on concrete inputs, one environment is fixed here. Its floats
  are rational numbers, each standing for the double of exactly that value (a double that
  is finite and not the negative zero). The conversion from an int is given where it is
  exact, up to \<open>2 ^ 53\<close>; a string converts when it is an integer literal and fails
  when it has no digit and no letter \<^verbatim>\<open>n\<close> (so it is neither a number, nor
  \<^verbatim>\<open>inf\<close>, nor \<^verbatim>\<open>nan\<close>); comparisons are exact; the
  fixed-point format rounds the exact value half to even, as CPython does; a pattern of
  letters and digits only matches the strings it is a prefix of, and the pattern
  \<^verbatim>\<open>(\<close> does not compile. Everything else (the textual form of floats, lists and
  dicts, other strings and patterns) is left unspecified: no example evaluates it.
\<close>

definition round_half_even :: "rat \<Rightarrow> int" where
  "round_half_even q =
     (let f = \<lfloor>q\<rfloor>; r = q - of_int f
      in if r < 1 / 2 then f else if 1 / 2 < r then f + 1 else if even f then f else f + 1)"

definition pad_zeros :: "nat \<Rightarrow> string \<Rightarrow> string" where
  "pad_zeros n s = replicate (n - length s) CHR ''0'' @ s"

definition sample_fmt_fixed :: "rat \<Rightarrow> nat \<Rightarrow> string" where
  "sample_fmt_fixed x places =
     (let scaled = nat (round_half_even (\<bar>x\<bar> * 10 ^ places));
          whole = with_commas (show_nat (scaled div 10 ^ places));
          frac = (if places = 0 then [] else CHR ''.'' # pad_zeros places (show_nat (scaled mod 10 ^ places)))
      in (if x < 0 then ''-'' else []) @ whole @ frac)"

definition number_value :: "rat number \<Rightarrow> rat" where
  "number_value b = (case b of NInt n \<Rightarrow> of_int n | NFloat x \<Rightarrow> x)"

definition is_alnum :: "char \<Rightarrow> bool" where
  "is_alnum c \<longleftrightarrow>
     c \<in> set ''0123456789abcdefghijklmnopqrstuvwxyzABCDEFGHIJKLMNOPQRSTUVWXYZ''"

definition sample_float_of_int :: "int \<Rightarrow> rat option" where
  "sample_float_of_int n = (if \<bar>n\<bar> \<le> 2 ^ 53 then Some (of_int n) else undefined)"

definition sample_float_of_str :: "string \<Rightarrow> rat option" where
  "sample_float_of_str s =
     (case py_int s of
        Some n \<Rightarrow> sample_float_of_int n
      | None \<Rightarrow>
          if list_all (\<lambda>c. \<not> is_digit c \<and> c \<noteq> CHR ''n'' \<and> c \<noteq> CHR ''N'') s then None
          else undefined)"

definition sample_re_match :: "string \<Rightarrow> string \<Rightarrow> bool option" where
  "sample_re_match p s =
     (if p = ''('' then None
      else if list_all is_alnum p then Some (prefix p s)
      else undefined)"

definition sample_env :: "rat pyenv" where
  "sample_env = \<lparr>
     float_of_int = sample_float_of_int,
     float_of_str = sample_float_of_str,
     float_lt = (\<lambda>x b. x < number_value b),
     float_gt = (\<lambda>x b. number_value b < x),
     float_neg = (\<lambda>x. x < 0),
     float_abs = (\<lambda>x. \<bar>x\<bar>),
     float_trunc = (\<lambda>x. Inr (if x < 0 then - \<lfloor>- x\<rfloor> else \<lfloor>x\<rfloor>)),
     fmt_fixed = sample_fmt_fixed,
     float_str = (\<lambda>x. undefined),
     container_str = (\<lambda>v. undefined),
     re_match = sample_re_match\<rparr>"

text \<open>
  The arithmetic of the sample is exact, on rational numbers; it is that of Python
  wherever Python's result is exact, as it is on the small integers of the example
  below. The measure is that of the fixed-pitch font Courier, whose glyphs are 600
  thousandths of the size wide; the empty string measures zero.
\<close>

definition sample_string_width :: "string \<Rightarrow> string \<Rightarrow> rat \<Rightarrow> rat" where
  "sample_string_width s family pt =
     (if family = ''Courier'' then of_nat (600 * length s) * (1 / 1000) * pt else undefined)"

definition sample_arith :: "rat arith" where
  "sample_arith = \<lparr>
     num_add = (\<lambda>a b. a + b),
     num_sub = (\<lambda>a b. a - b),
     num_mul = (\<lambda>a b. a * b),
     num_div = (\<lambda>a b. if b = 0 then None else Some (a / b)),
     num_gt = (\<lambda>a b. b < a),
     num_two = 2,
     num_margin = 95 / 100,
     string_width = sample_string_width\<rparr>"

section \<open>Properties of the path resolver\<close>

subsection \<open>Splitting a rendered path\<close>

lemma split_on_no_sep: "c \<notin> set w \<Longrightarrow> split_on c w = [w]"
  by (induction w) auto

lemma split_on_append: "c \<notin> set w \<Longrightarrow> split_on c (w @ c # rest) = w # split_on c rest"
  by (induction w) auto

lemma split_on_join:
  "ws \<noteq> [] \<Longrightarrow> \<forall>w\<in>set ws. c \<notin> set w \<Longrightarrow> split_on c (join_with c ws) = ws"
proof (induction c ws rule: join_with.induct)
  case (1 c) then show ?case by simp
next
  case (2 c w) then show ?case by (simp add: split_on_no_sep)
next
  case (3 c w v ws)
  then show ?case by (simp add: split_on_append)
qed

lemma digit_char_cases:
  assumes "d < 10"
  shows "is_digit (digit_char d) \<and> digit_val (digit_char d) = d \<and>
    \<not> is_int_space (digit_char d) \<and> digit_char d \<notin> set ''.[]-+_''"
proof -
  from assms have "d \<in> {0,1,2,3,4,5,6,7,8,9}" by auto
  then show ?thesis
    by (auto simp: is_digit_def digit_val_def digit_char_def is_int_space_def)
qed


subsection \<open>Decimal numerals are read back by the integer conversion\<close>

lemma digits_acc_all_digits:
  "\<forall>c\<in>set ds. is_digit c \<Longrightarrow> digits_acc acc ds = Some (digits_value acc ds)"
  by (induction ds arbitrary: acc) (auto simp: digits_value_def)

lemma show_nat_chars:
  "c \<in> set (show_nat n) \<Longrightarrow> \<exists>d<10. c = digit_char d"
proof (induction n rule: show_nat.induct)
  case (1 n)
  show ?case
  proof (cases "n < 10")
    case True
    with "1.prems" show ?thesis by (auto simp: show_nat.simps [of n])
  next
    case False
    with "1.prems" have "c \<in> set (show_nat (n div 10)) \<or> c = digit_char (n mod 10)"
      by (auto simp: show_nat.simps [of n])
    then show ?thesis
    proof
      assume "c \<in> set (show_nat (n div 10))"
      with False "1.IH" show ?thesis by simp
    next
      assume "c = digit_char (n mod 10)"
      moreover have "n mod 10 < 10" by simp
      ultimately show ?thesis by blast
    qed
  qed
qed

lemma show_nat_value: "digits_value 0 (show_nat n) = n"
proof (induction n rule: show_nat.induct)
  case (1 n)
  show ?case
  proof (cases "n < 10")
    case True
    then show ?thesis
      using digit_char_cases [of n] by (simp add: show_nat.simps [of n] digits_value_def)
  next
    case False
    have "n mod 10 < 10" by simp
    then have dv: "digit_val (digit_char (n mod 10)) = n mod 10"
      using digit_char_cases by blast
    from False "1.IH" have "digits_value 0 (show_nat (n div 10)) = n div 10" by simp
    with False dv show ?thesis
      by (simp add: show_nat.simps [of n] digits_value_def)
  qed
qed

lemma show_nat_not_Nil: "show_nat n \<noteq> []"
  by (simp add: show_nat.simps [of n])

lemma show_nat_is_digit: "c \<in> set (show_nat n) \<Longrightarrow> is_digit c"
  using show_nat_chars digit_char_cases by blast

lemma show_nat_not_space: "c \<in> set (show_nat n) \<Longrightarrow> \<not> is_int_space c"
  using show_nat_chars digit_char_cases by blast

lemma show_nat_plain: "c \<in> set (show_nat n) \<Longrightarrow> c \<notin> set ''.[]-+_''"
  using show_nat_chars digit_char_cases by blast

lemma int_strip_no_space:
  assumes "\<forall>c\<in>set s. \<not> is_int_space c"
  shows "int_strip s = s"
proof -
  have "dropWhile is_int_space s = s"
    using assms by (cases s) auto
  moreover have "dropWhile is_int_space (rev s) = rev s"
    using assms by (cases "rev s") (auto simp: Cons_eq_append_conv dest: arg_cong [where f = set])
  ultimately show ?thesis by (simp add: int_strip_def)
qed

lemma py_nat_show_nat: "py_nat (show_nat n) = Some n"
proof (cases "show_nat n")
  case Nil
  then show ?thesis by (simp add: show_nat_not_Nil)
next
  case (Cons c cs)
  have dig: "\<forall>x\<in>set (c # cs). is_digit x"
    using show_nat_is_digit [of _ n] Cons by simp
  have "digits_value 0 (c # cs) = n"
    using show_nat_value [of n] Cons by simp
  then have "digits_value (digit_val c) cs = n"
    by (simp add: digits_value_def)
  with dig Cons show ?thesis
    by (simp add: py_nat_def digits_acc_all_digits)
qed

lemma py_int_show_nat:
  assumes "length (show_nat n) \<le> max_str_digits"
  shows "py_int (show_nat n) = Some (int n)"
proof -
  have strip: "int_strip (show_nat n) = show_nat n"
    using show_nat_not_space by (intro int_strip_no_space) blast
  have few: "\<not> max_str_digits < length (filter is_digit (show_nat n))"
    using assms length_filter_le [of is_digit "show_nat n"] by linarith
  obtain c cs where cs: "show_nat n = c # cs"
    using show_nat_not_Nil by (cases "show_nat n") auto
  have "c \<notin> set ''.[]-+_''"
    using show_nat_plain [of c n] cs by simp
  then have "c \<noteq> CHR ''-''" "c \<noteq> CHR ''+''" by auto
  with strip cs py_nat_show_nat [of n] few show ?thesis
    by (simp add: py_int_def)
qed

subsection \<open>One step of the loop on a rendered segment\<close>

lemma resolve_step_plain:
  "CHR ''['' \<notin> set k \<or> CHR '']'' \<notin> set k \<Longrightarrow> resolve_step v k = py_get v k JNull"
  by (auto simp: resolve_step_def)

lemma str_index_append: "c \<notin> set k \<Longrightarrow> str_index (k @ c # rest) c = length k"
  by (induction k) (auto simp: str_index_def)

lemma str_index_skip:
  "c \<notin> set k \<Longrightarrow> str_index (k @ rest) c = length k + str_index rest c"
  by (induction k) (auto simp: str_index_def)

lemma resolve_step_indexed:
  assumes "valid_key k" and "length (show_nat i) \<le> max_str_digits"
  shows "resolve_step v (render_segment (k, Some i)) =
    (case py_get v k (JList []) of Inl e \<Rightarrow> Inl e | Inr w \<Rightarrow> py_subscript w (int i))"
proof -
  let ?key = "k @ CHR ''['' # show_nat i @ '']''"
  have k: "CHR ''['' \<notin> set k" "CHR '']'' \<notin> set k"
    using assms by (simp_all add: valid_key_def)
  have nb: "CHR '']'' \<notin> set (show_nat i)"
    using show_nat_plain [of "CHR '']''" i] by auto
  have open_at: "str_index ?key CHR ''['' = length k"
    using k(1) by (rule str_index_append)
  have "str_index ?key CHR '']'' = length k + str_index (CHR ''['' # show_nat i @ '']'') CHR '']''"
    using k(2) by (rule str_index_skip)
  also have "str_index (CHR ''['' # show_nat i @ '']'') CHR '']'' = 1 + length (show_nat i)"
    using nb str_index_append [of "CHR '']''" "show_nat i" "[]"] by (simp add: str_index_def)
  finally have close_at: "str_index ?key CHR '']'' = length k + 1 + length (show_nat i)"
    by simp
  have sl: "slice ?key (length k + 1) (length k + 1 + length (show_nat i)) = show_nat i"
    by (simp add: slice_def)
  show ?thesis
    using open_at close_at sl assms(2)
    by (simp add: resolve_step_def py_int_show_nat)
qed

lemma lookup_path_JNull:
  assumes "lookup_path JNull segs = Some v"
  shows "v = JNull \<and> segs = []"
proof (cases segs)
  case Nil
  with assms show ?thesis by simp
next
  case (Cons seg rest)
  with assms show ?thesis by (cases seg; cases "snd seg") auto
qed

lemma resolve_step_key:
  assumes "valid_segment (k, None)" and "map_of d k = Some u"
  shows "resolve_step (JDict d) (render_segment (k, None)) = Inr u"
  using assms by (simp add: resolve_step_plain valid_segment_def valid_key_def py_get_def)

lemma resolve_step_subscript:
  assumes "valid_segment (k, Some i)" and "map_of d k = Some (JList xs)" and "i < length xs"
  shows "resolve_step (JDict d) (render_segment (k, Some i)) = Inr (xs ! i)"
proof -
  have "valid_key k" and "length (show_nat i) \<le> max_str_digits"
    using assms(1) by (simp_all add: valid_segment_def)
  then have "resolve_step (JDict d) (render_segment (k, Some i)) =
      (case py_get (JDict d) k (JList []) of Inl e \<Rightarrow> Inl e
       | Inr w \<Rightarrow> py_subscript w (int i))"
    by (rule resolve_step_indexed)
  also have "\<dots> = Inr (xs ! i)"
    using assms(2,3) by (simp add: py_get_def py_subscript_def seq_index_def)
  finally show ?thesis .
qed

lemma resolve_loop_lookup:
  assumes "\<forall>seg\<in>set segs. valid_segment seg"
    and "lookup_path v segs = Some w" and "w \<noteq> JNull"
  shows "resolve_loop v dflt (map render_segment segs) = Inr w"
  using assms
proof (induction v segs rule: lookup_path.induct)
  case (1 v)
  then show ?case by simp
next
  case (2 v k rest)
  from "2.prems"(2) obtain d u where v: "v = JDict d" and u: "map_of d k = Some u"
    and rest: "lookup_path u rest = Some w"
    by (auto split: json.splits option.splits)
  from rest "2.prems"(3) have "u \<noteq> JNull"
    by (auto dest: lookup_path_JNull)
  moreover have "resolve_step v (render_segment (k, None)) = Inr u"
    using "2.prems"(1) v u by (simp add: resolve_step_key del: render_segment.simps)
  moreover have "resolve_loop u dflt (map render_segment rest) = Inr w"
    using "2.IH" [OF v u] "2.prems" rest by simp
  ultimately show ?case
    by (cases u) (simp_all del: render_segment.simps)
next
  case (3 v k i rest)
  from "3.prems"(2) obtain d xs where v: "v = JDict d" and u: "map_of d k = Some (JList xs)"
    and i: "i < length xs" and rest: "lookup_path (xs ! i) rest = Some w"
    by (auto split: json.splits option.splits if_splits)
  from rest "3.prems"(3) have "xs ! i \<noteq> JNull"
    by (auto dest: lookup_path_JNull)
  moreover have "resolve_step v (render_segment (k, Some i)) = Inr (xs ! i)"
    using "3.prems"(1) v u i by (simp add: resolve_step_subscript del: render_segment.simps)
  moreover have "resolve_loop (xs ! i) dflt (map render_segment rest) = Inr w"
    using "3.IH" [OF v u _ i] "3.prems" rest by simp
  ultimately show ?case
    by (cases "xs ! i") (simp_all del: render_segment.simps)
qed

lemma resolve_loop_lookup_null:
  assumes "\<forall>seg\<in>set segs. valid_segment seg"
    and "lookup_path v segs = Some JNull" and "segs \<noteq> []"
  shows "resolve_loop v dflt (map render_segment segs) = Inr dflt"
  using assms
proof (induction v segs rule: lookup_path.induct)
  case (1 v)
  then show ?case by simp
next
  case (2 v k rest)
  from "2.prems"(2) obtain d u where v: "v = JDict d" and u: "map_of d k = Some u"
    and rest: "lookup_path u rest = Some JNull"
    by (auto split: json.splits option.splits)
  have step: "resolve_step v (render_segment (k, None)) = Inr u"
    using "2.prems"(1) v u by (simp add: resolve_step_key del: render_segment.simps)
  show ?case
  proof (cases "u = JNull")
    case True
    with step show ?thesis by (simp del: render_segment.simps)
  next
    case False
    with rest have "rest \<noteq> []" by auto
    then have "resolve_loop u dflt (map render_segment rest) = Inr dflt"
      using "2.IH" [OF v u] "2.prems"(1) rest by simp
    with step False show ?thesis
      by (cases u) (simp_all del: render_segment.simps)
  qed
next
  case (3 v k i rest)
  from "3.prems"(2) obtain d xs where v: "v = JDict d" and u: "map_of d k = Some (JList xs)"
    and i: "i < length xs" and rest: "lookup_path (xs ! i) rest = Some JNull"
    by (auto split: json.splits option.splits if_splits)
  have step: "resolve_step v (render_segment (k, Some i)) = Inr (xs ! i)"
    using "3.prems"(1) v u i by (simp add: resolve_step_subscript del: render_segment.simps)
  show ?case
  proof (cases "xs ! i = JNull")
    case True
    with step show ?thesis by (simp del: render_segment.simps)
  next
    case False
    with rest have "rest \<noteq> []" by auto
    then have "resolve_loop (xs ! i) dflt (map render_segment rest) = Inr dflt"
      using "3.IH" [OF v u _ i] "3.prems"(1) rest by simp
    with step False show ?thesis
      by (cases "xs ! i") (simp_all del: render_segment.simps)
  qed
qed

lemma render_segment_no_dot: "valid_segment seg \<Longrightarrow> CHR ''.'' \<notin> set (render_segment seg)"
  using show_nat_plain [of "CHR ''.''"]
  by (cases seg; cases "snd seg") (auto simp: valid_segment_def valid_key_def)

lemma split_on_render_path:
  assumes "segs \<noteq> []" and "\<forall>seg\<in>set segs. valid_segment seg"
  shows "split_on CHR ''.'' (render_path segs) = map render_segment segs"
  unfolding render_path_def
proof (rule split_on_join)
  show "map render_segment segs \<noteq> []" using assms(1) by simp
  show "\<forall>w\<in>set (map render_segment segs). CHR ''.'' \<notin> set w"
    using assms(2) render_segment_no_dot by auto
qed

lemma resolve_loop_reaches_null:
  "loop_value v ks1 = Some u \<Longrightarrow> resolve_step u k = Inr JNull
   \<Longrightarrow> resolve_loop v dflt (ks1 @ k # ks2) = Inr dflt"
proof (induction ks1 arbitrary: v)
  case Nil
  then show ?case by simp
next
  case (Cons a ks1)
  then show ?case
    by (auto split: sum.splits json.splits)
qed

subsection \<open>Claims about the path resolver\<close>

lemmas resolver_eval =
  resolve_value_reference_def resolve_step_def str_index_def slice_def py_int_def
  int_strip_def is_int_space_def max_str_digits_def py_nat_def is_digit_def digit_val_def py_get_def
  py_subscript_def seq_index_def resolve_caught_def

text \<open>
  C1. The claim is that \<^verbatim>\<open>resolve_value_reference\<close> never raises and returns the default
  for every malformed path. The code converts the text between the brackets with
  \<^verbatim>\<open>int\<close>, and the \<^verbatim>\<open>ValueError\<close> of that conversion is not among the four
  exceptions it catches: for the path \<^verbatim>\<open>a[x]\<close> the call raises, whatever the document
  and the default are.
\<close>

theorem resolve_value_reference_raises_ValueError:
  "resolve_value_reference data ''a[x]'' dflt = Inl ValueError"
  by (simp add: resolve_value_reference_def resolve_step_def str_index_def slice_def
      py_int_def int_strip_def is_int_space_def max_str_digits_def py_nat_def is_digit_def
      resolve_caught_def)

text \<open>
  C2, as stated, promises the stored value for every present path. A key that is present
  with the value \<^verbatim>\<open>null\<close> is a present path, and for it the loop's test for
  \<^verbatim>\<open>None\<close> returns the default: \<^verbatim>\<open>{"a": null}\<close>, path \<^verbatim>\<open>a\<close>, default 0 gives 0.
\<close>

theorem resolve_present_null:
  "list_all valid_segment [(''a'', None)]
   \<and> render_path [(''a'', None)] = ''a''
   \<and> lookup_path (JDict [(''a'', JNull)]) [(''a'', None)] = Some (JNull :: unit json)
   \<and> resolve_value_reference (JDict [(''a'', JNull)]) ''a'' (JInt 0) = Inr (JInt 0 :: unit json)
   \<and> Inr (JInt 0) \<noteq> (Inr JNull :: py_error + unit json)"
  by (simp add: valid_segment_def valid_key_def render_path_def resolver_eval)

text \<open>
  C2, amended. For every path made of valid segments whose value is present in the
  document, that is, found by \<open>lookup_path\<close>, \<^verbatim>\<open>resolve_value_reference\<close> on the written
  path returns exactly that value when it is not \<^verbatim>\<open>None\<close>, and the default when it is.
  The two examples of the specification: \<^verbatim>\<open>income.wages[0].amount\<close> with default 0
  gives 50000 when the document holds it, and 0 against \<^verbatim>\<open>{"income": {}}\<close>.
\<close>

theorem resolve_present_path:
  "(list_all valid_segment segs \<and> render_path segs \<noteq> [] \<and> lookup_path data segs = Some w
    \<longrightarrow> resolve_value_reference data (render_path segs) dflt =
          Inr (if w = JNull then dflt else w))
   \<and> resolve_value_reference
        (JDict [(''income'', JDict [(''wages'', JList [JDict [(''amount'', JInt 50000)]])])])
        ''income.wages[0].amount'' (JInt 0) = Inr (JInt 50000 :: 'f json)
   \<and> resolve_value_reference (JDict [(''income'', JDict [])])
        ''income.wages[0].amount'' (JInt 0) = Inr (JInt 0 :: 'f json)"
proof (intro conjI impI)
  assume hyp: "list_all valid_segment segs \<and> render_path segs \<noteq> [] \<and>
     lookup_path data segs = Some w"
  then have valid: "\<forall>seg\<in>set segs. valid_segment seg" and ne: "render_path segs \<noteq> []"
    and look: "lookup_path data segs = Some w"
    by (simp_all add: list_all_iff)
  from ne have segs: "segs \<noteq> []" by (auto simp: render_path_def)
  with valid have split: "split_on CHR ''.'' (render_path segs) = map render_segment segs"
    by (simp add: split_on_render_path)
  show "resolve_value_reference data (render_path segs) dflt =
          Inr (if w = JNull then dflt else w)"
  proof (cases "w = JNull")
    case True
    with resolve_loop_lookup_null [OF valid _ segs, of data dflt] look ne split
    show ?thesis by (simp add: resolve_value_reference_def)
  next
    case False
    with resolve_loop_lookup [OF valid look, of dflt] ne split
    show ?thesis by (simp add: resolve_value_reference_def)
  qed
qed (simp_all add: resolver_eval)

theorem resolve_present_path_witness:
  "list_all valid_segment [(''income'', None), (''wages'', Some 0), (''amount'', None)]
   \<and> render_path [(''income'', None), (''wages'', Some 0), (''amount'', None)]
       = ''income.wages[0].amount''
   \<and> lookup_path
        (JDict [(''income'', JDict [(''wages'', JList [JDict [(''amount'', JInt 50000)]])])])
        [(''income'', None), (''wages'', Some 0), (''amount'', None)]
       = Some (JInt 50000 :: unit json)
   \<and> resolve_value_reference
        (JDict [(''income'', JDict [(''wages'', JList [JDict [(''amount'', JInt 50000)]])])])
        (render_path [(''income'', None), (''wages'', Some 0), (''amount'', None)])
        (JInt 0) = Inr (JInt 50000 :: unit json)"
  using resolve_present_path
    [of "[(''income'', None), (''wages'', Some 0), (''amount'', None)]"
        "JDict [(''income'', JDict [(''wages'', JList [JDict [(''amount'', JInt 50000)]])])]"
        "JInt 50000 :: unit json" "JInt 0"]
  by (auto simp add: valid_segment_def valid_key_def render_path_def show_nat.simps
      digit_char_def max_str_digits_def)

text \<open>
  C10. When the loop has reached a value \<open>u\<close> and the next step yields \<^verbatim>\<open>None\<close>, at
  any place of the path, the last one included, the call returns the default. A key that
  is stored with \<^verbatim>\<open>null\<close> yields \<^verbatim>\<open>None\<close> at its step exactly as a missing key does,
  so the caller sees the same result for both.
\<close>

theorem resolve_null_gives_default:
  "(p \<noteq> [] \<and> split_on CHR ''.'' p = ks1 @ k # ks2 \<and>
      loop_value data ks1 = Some u \<and> resolve_step u k = Inr JNull
    \<longrightarrow> resolve_value_reference data p dflt = Inr dflt)
   \<and> ((CHR ''['' \<notin> set k \<or> CHR '']'' \<notin> set k) \<and>
        (map_of d k = Some JNull \<or> map_of d k = None)
      \<longrightarrow> resolve_step (JDict d) k = Inr JNull)"
proof (intro conjI impI)
  assume "p \<noteq> [] \<and> split_on CHR ''.'' p = ks1 @ k # ks2 \<and>
      loop_value data ks1 = Some u \<and> resolve_step u k = Inr JNull"
  then show "resolve_value_reference data p dflt = Inr dflt"
    by (simp add: resolve_value_reference_def resolve_loop_reaches_null)
next
  assume "(CHR ''['' \<notin> set k \<or> CHR '']'' \<notin> set k) \<and>
        (map_of d k = Some JNull \<or> map_of d k = None)"
  then show "resolve_step (JDict d) k = Inr JNull"
    by (auto simp: resolve_step_plain py_get_def)
qed

theorem resolve_null_gives_default_witness:
  "split_on CHR ''.'' ''a.b'' = [''a''] @ ''b'' # []
   \<and> loop_value (JDict [(''a'', JDict [(''b'', JNull)])]) [''a'']
       = Some (JDict [(''b'', JNull :: unit json)])
   \<and> resolve_step (JDict [(''b'', JNull :: unit json)]) ''b'' = Inr JNull
   \<and> resolve_value_reference (JDict [(''a'', JDict [(''b'', JNull)])]) ''a.b'' (JInt 7)
       = Inr (JInt 7 :: unit json)
   \<and> resolve_value_reference (JDict [(''a'', JDict [])]) ''a.b'' (JInt 7)
       = Inr (JInt 7 :: unit json)"
  using resolve_null_gives_default
    [of "''a.b''" "[''a'']" "''b''" "[]" "JDict [(''a'', JDict [(''b'', JNull)])]"
        "JDict [(''b'', JNull :: unit json)]" "JInt 7" "[(''b'', JNull)]"]
  by (auto simp add: resolver_eval)

section \<open>Properties of the formatter\<close>

lemma mask_loop_spec:
  "mask_loop vs res idx pat = res @ mask_spec pat (drop idx vs)"
proof (induction pat arbitrary: res idx)
  case Nil
  then show ?case by simp
next
  case (Cons ch rest)
  show ?case
  proof (cases "ch = CHR ''#'' \<or> ch = CHR ''X''")
    case False
    then show ?thesis by (simp add: Cons.IH)
  next
    case True
    show ?thesis
    proof (cases "idx < length vs")
      case inside: True
      then have "drop idx vs = vs ! idx # drop (Suc idx) vs"
        by (simp add: Cons_nth_drop_Suc)
      with True inside show ?thesis by (simp add: Cons.IH)
    next
      case outside: False
      with True show ?thesis by (simp add: Cons.IH)
    qed
  qed
qed

lemma remove_both: "remove_char a (remove_char b s) = filter (\<lambda>c. c \<noteq> b \<and> c \<noteq> a) s"
  by (simp add: remove_char_def conj_commute)

text \<open>
  C6. \<^verbatim>\<open>_format_mask\<close> removes every \<^verbatim>\<open>-\<close> and every space from the stringified
  value and then does what the walk of the specification does on the pattern: a
  \<^verbatim>\<open>#\<close> or an \<^verbatim>\<open>X\<close> takes the next source character that is not consumed yet and
  gives nothing when none is left, any other character is copied. So
  \<^verbatim>\<open>123456789\<close> under \<^verbatim>\<open>XXX-XX-####\<close> is \<^verbatim>\<open>123-45-6789\<close>, and the seven digits
  \<^verbatim>\<open>1234567\<close> give \<^verbatim>\<open>123-45-67\<close>.
\<close>

theorem format_mask_walk:
  "format_mask env v ps =
     mask_spec (get_or (pattern ps) [])
       (filter (\<lambda>c. c \<noteq> CHR ''-'' \<and> c \<noteq> CHR '' '') (py_str env v))
   \<and> format_mask env (JStr ''123456789'') (no_params\<lparr>pattern := Some ''XXX-XX-####''\<rparr>)
       = ''123-45-6789''
   \<and> format_mask env (JStr ''1234567'') (no_params\<lparr>pattern := Some ''XXX-XX-####''\<rparr>)
       = ''123-45-67''"
proof (intro conjI)
  show "format_mask env v ps =
     mask_spec (get_or (pattern ps) [])
       (filter (\<lambda>c. c \<noteq> CHR ''-'' \<and> c \<noteq> CHR '' '') (py_str env v))"
    by (simp add: format_mask_def mask_loop_spec remove_both)
qed (simp_all add: format_mask_def remove_char_def py_str_def get_or_def no_params_def)

theorem format_mask_walk_witness:
  "format_mask sample_env (JStr ''123-45 6789'') (no_params\<lparr>pattern := Some ''(XXX) ##-#X#X#''\<rparr>)
     = ''(123) 45-6789''"
  using format_mask_walk
    [of sample_env "JStr ''123-45 6789''" "no_params\<lparr>pattern := Some ''(XXX) ##-#X#X#''\<rparr>"]
  by (simp add: py_str_def get_or_def no_params_def)

text \<open>
  C4. The claim is that \<^verbatim>\<open>_format_date\<close> returns the stringified value whenever the
  parse fails, for every value, and raises nothing. On a value that is not a string, such
  as the number 20240115, \<^verbatim>\<open>datetime.fromisoformat\<close> and \<^verbatim>\<open>datetime.strptime\<close>
  raise \<^verbatim>\<open>TypeError\<close>, which the \<^verbatim>\<open>except\<close> clause does not name (the currency and
  percentage formatters do catch it): the call raises, whatever the parameters are.
\<close>

theorem format_date_raises_TypeError:
  "format_date env denv (JInt 20240115) ps = Inl TypeError"
  by (simp add: format_date_def date_parse_def Let_def)

text \<open>
  C5. The claim is that the currency format uses the configured thousands separator.
  \<^verbatim>\<open>_format_currency\<close> reads the parameter and never uses it: its result does not
  depend on \<^verbatim>\<open>thousands_separator\<close>, and the groups are always separated by commas.
  The rest of the claim holds: \<^verbatim>\<open>-1234.5\<close> with two decimal places gives
  \<^verbatim>\<open>($1,234.50)\<close> with parentheses and \<^verbatim>\<open>-$1,234.50\<close> with a minus sign, here with
  the separators \<^verbatim>\<open>.\<close> and space configured.
\<close>

theorem format_currency_ignores_separator:
  "format_currency env v (ps\<lparr>thousands_separator := sep\<rparr>) = format_currency env v ps
   \<and> format_currency sample_env (JFloat (- 1234.5))
        (no_params\<lparr>decimal_places := Some 2, negative_format := Some ''parentheses'',
           thousands_separator := Some ''.''\<rparr>) = Inr ''($1,234.50)''
   \<and> format_currency sample_env (JFloat (- 1234.5))
        (no_params\<lparr>decimal_places := Some 2, negative_format := Some ''minus'',
           thousands_separator := Some '' ''\<rparr>) = Inr ''-$1,234.50''"
proof (intro conjI)
  show "format_currency env v (ps\<lparr>thousands_separator := sep\<rparr>) = format_currency env v ps"
    by (simp add: format_currency_def Let_def cong: sum.case_cong)
  have scaled: "round_half_even (\<bar>- 1234.5\<bar> * 10 ^ 2) = 123450"
    by (simp add: round_half_even_def)
  have whole: "with_commas (show_nat 1234) = ''1,234''"
    by (simp add: with_commas_def show_nat.simps digit_char_def)
  have frac: "pad_zeros 2 (show_nat 50) = ''50''"
    by (simp add: pad_zeros_def show_nat.simps digit_char_def)
  have fmt: "sample_fmt_fixed \<bar>- 1234.5\<bar> 2 = ''1,234.50''"
    using scaled whole frac by (simp add: sample_fmt_fixed_def Let_def)
  show "format_currency sample_env (JFloat (- 1234.5))
        (no_params\<lparr>decimal_places := Some 2, negative_format := Some ''parentheses'',
           thousands_separator := Some ''.''\<rparr>) = Inr ''($1,234.50)''"
    using fmt by (simp add: format_currency_def py_float_def sample_env_def get_or_def no_params_def)
  show "format_currency sample_env (JFloat (- 1234.5))
        (no_params\<lparr>decimal_places := Some 2, negative_format := Some ''minus'',
           thousands_separator := Some '' ''\<rparr>) = Inr ''-$1,234.50''"
    using fmt by (simp add: format_currency_def py_float_def sample_env_def get_or_def no_params_def)
qed

section \<open>Properties of the validator\<close>





lemma validate_rule_required:
  "rule_type_of r = ''required'' \<Longrightarrow>
   validate_rule env v r =
     Inr (if v = JNull \<or> py_strip (py_str env v) = [] then [error_msg_of r] else [])"
  by (simp add: validate_rule_def Let_def)


















section \<open>Properties of the rendering of a field\<close>

text \<open>
  C9. When the resolved value is \<^verbatim>\<open>None\<close> and the field is not required,
  \<^verbatim>\<open>_render_field\<close> returns the state as it was: no call on the canvas, no error, no
  warning. When the field is required and validation returns messages, the field is not
  drawn (the canvas and the warnings are as before) and the messages, each behind the
  field's id, are appended to the errors; a single failing \<^verbatim>\<open>required\<close> rule
  appends exactly one. This holds whatever the drawing part of the function does.
\<close>

theorem render_field_skips:
  "(resolve_value_reference data (field_path fld) (field_default fld) = Inr JNull \<and>
      \<not> get_or (required fld) False
    \<longrightarrow> render_field env draw data fld dbg st = Inr st)
   \<and> (resolve_value_reference data (field_path fld) (field_default fld) = Inr v \<and>
       get_or (required fld) False \<and>
       validate_value env v (get_or (validation fld) []) = Inr verrs \<and> verrs \<noteq> []
      \<longrightarrow> render_field env draw data fld dbg st =
            Inr (st\<lparr>errors := errors st @
                     map (\<lambda>err. get_or (field_id fld) ''unknown'' @ '': '' @ py_str env err)
                       verrs\<rparr>))
   \<and> (resolve_value_reference data (field_path fld) (field_default fld) = Inr v \<and>
       get_or (required fld) False \<and>
       (v = JNull \<or> py_strip (py_str env v) = []) \<and>
       validation fld = Some [r] \<and> rule_type_of r = ''required''
      \<longrightarrow> render_field env draw data fld dbg st =
            Inr (st\<lparr>errors := errors st @
                     [get_or (field_id fld) ''unknown'' @ '': '' @
                      py_str env (error_msg_of r)]\<rparr>))"
proof (intro conjI impI)
  assume "resolve_value_reference data (field_path fld) (field_default fld) = Inr JNull \<and>
      \<not> get_or (required fld) False"
  then show "render_field env draw data fld dbg st = Inr st"
    by (simp add: render_field_def)
next
  assume "resolve_value_reference data (field_path fld) (field_default fld) = Inr v \<and>
       get_or (required fld) False \<and>
       validate_value env v (get_or (validation fld) []) = Inr verrs \<and> verrs \<noteq> []"
  then show "render_field env draw data fld dbg st =
            Inr (st\<lparr>errors := errors st @
                     map (\<lambda>err. get_or (field_id fld) ''unknown'' @ '': '' @ py_str env err)
                       verrs\<rparr>)"
    by (simp add: render_field_def Let_def)
next
  assume a: "resolve_value_reference data (field_path fld) (field_default fld) = Inr v \<and>
       get_or (required fld) False \<and>
       (v = JNull \<or> py_strip (py_str env v) = []) \<and>
       validation fld = Some [r] \<and> rule_type_of r = ''required''"
  then have "validate_rule env v r = Inr [error_msg_of r]"
    by (auto simp: validate_rule_required)
  with a have "validate_value env v (get_or (validation fld) []) = Inr [error_msg_of r]"
    by (simp add: validate_value_def get_or_def)
  with a show "render_field env draw data fld dbg st =
            Inr (st\<lparr>errors := errors st @
                     [get_or (field_id fld) ''unknown'' @ '': '' @
                      py_str env (error_msg_of r)]\<rparr>)"
    by (simp add: render_field_def Let_def)
qed

theorem render_field_skips_witness:
  "render_field sample_env (\<lambda>fld v dbg st. Inr (st\<lparr>canvas := canvas st @ [v]\<rparr>))
     (JDict [(''taxpayer'', JDict [])])
     \<lparr>field_id = Some ''1040_first_name'',
       value_reference = Some \<lparr>path = Some ''taxpayer.name.first'', default_value = None\<rparr>,
       required = Some False, validation = None\<rparr>
     False \<lparr>errors = [], warnings = [], canvas = []\<rparr>
   = Inr \<lparr>errors = [], warnings = [], canvas = []\<rparr>
   \<and> render_field sample_env (\<lambda>fld v dbg st. Inr (st\<lparr>canvas := canvas st @ [v]\<rparr>))
     (JDict [(''taxpayer'', JDict [])])
     \<lparr>field_id = Some ''1040_first_name'',
       value_reference = Some \<lparr>path = Some ''taxpayer.name.first'', default_value = None\<rparr>,
       required = Some True,
       validation = Some [\<lparr>rule_type = Some ''required'', parameters = None,
                            error_message = Some (JStr ''First name is required'')\<rparr>]\<rparr>
     False \<lparr>errors = [], warnings = [], canvas = []\<rparr>
   = Inr \<lparr>errors = [''1040_first_name: First name is required''], warnings = [], canvas = []\<rparr>"
  using render_field_skips
    [of "JDict [(''taxpayer'', JDict [])]"
        "\<lparr>field_id = Some ''1040_first_name'',
          value_reference = Some \<lparr>path = Some ''taxpayer.name.first'', default_value = None\<rparr>,
          required = Some False, validation = None\<rparr>"
        sample_env "\<lambda>fld v dbg st. Inr (st\<lparr>canvas := canvas st @ [v]\<rparr>)"
        False "\<lparr>errors = [], warnings = [], canvas = []\<rparr>" JNull "[]"
        "\<lparr>rule_type = None, parameters = None, error_message = None\<rparr>"]
    render_field_skips
    [of "JDict [(''taxpayer'', JDict [])]"
        "\<lparr>field_id = Some ''1040_first_name'',
          value_reference = Some \<lparr>path = Some ''taxpayer.name.first'', default_value = None\<rparr>,
          required = Some True,
          validation = Some [\<lparr>rule_type = Some ''required'', parameters = None,
                               error_message = Some (JStr ''First name is required'')\<rparr>]\<rparr>"
        sample_env "\<lambda>fld v dbg st. Inr (st\<lparr>canvas := canvas st @ [v]\<rparr>)"
        False "\<lparr>errors = [], warnings = [], canvas = []\<rparr>" JNull
        "[JStr ''First name is required'']"
        "\<lparr>rule_type = Some ''required'', parameters = None,
           error_message = Some (JStr ''First name is required'')\<rparr>"]
  by (simp add: field_path_def field_default_def get_or_def resolver_eval
      rule_type_of_def error_msg_of_def validate_value_def validate_rule_def py_str_def)

section \<open>Properties of the placing of the text\<close>

text \<open>
  C8. The claim is that under the shrink policy a text wider than the interior of its box
  is drawn again at a strictly smaller size at which it fits. In a box narrower than its
  padding the interior width is negative, so every text is wider; the empty text measures
  zero, and the scale factor is a division by that width: with a box of width 1 and the
  default padding of 2 on each side, the lines raise \<^verbatim>\<open>ZeroDivisionError\<close>.
\<close>

theorem place_text_divides_by_zero:
  "place_text sample_arith
     \<lparr>box_x = 50, box_width = 1, padding_left = 2, padding_right = 2,
       font_family = ''Courier'', font_size = 10, alignment = ''left'',
       overflow_behavior = ''shrink''\<rparr> []
   = Inl ZeroDivisionError"
  by (simp add: place_text_def anchor_def available_width_def sample_arith_def
      sample_string_width_def)

end
